theory Spec2Isabelle
  imports Main "HOL-Library.Sublist"
begin

section \<open>Server: the rate-limited, retrying proxy (server.js)\<close>

subsection \<open>Values and responses\<close>

text \<open>
  A JavaScript string is modelled as a \<^typ>\<open>string\<close>; one list element stands for one
  UTF-16 code unit, which is what \<^verbatim>\<open>.length\<close> counts and what \<^verbatim>\<open>.includes\<close> compares.
\<close>

text \<open>The value found under \<^verbatim>\<open>req.body.question\<close> after JSON parsing.\<close>

datatype jsvalue =
    JUndefined
  | JNull
  | JBool bool
  | JNumber int
  | JString string
  | JObject

text \<open>JavaScript truthiness, as tested by \<^verbatim>\<open>!question\<close>.\<close>

fun truthy :: "jsvalue \<Rightarrow> bool" where
  "truthy JUndefined = False"
| "truthy JNull = False"
| "truthy (JBool b) = b"
| "truthy (JNumber n) = (n \<noteq> 0)"
| "truthy (JString s) = (s \<noteq> [])"
| "truthy JObject = True"

text \<open>\<^verbatim>\<open>typeof v === 'string'\<close>.\<close>

fun typeof_string :: "jsvalue \<Rightarrow> bool" where
  "typeof_string (JString s) = True"
| "typeof_string v = False"

text \<open>
  The JSON bodies the server sends: \<^verbatim>\<open>{error: msg}\<close> and \<^verbatim>\<open>{response: r}\<close>, where
  \<^verbatim>\<open>r\<close> is \<^verbatim>\<open>undefined\<close> (\<open>None\<close>) when the variable was never assigned.
\<close>

datatype json_body = ErrorJson string | ResponseJson "string option"

record http_response =
  status :: nat
  body :: json_body

subsection \<open>Rate limiting middleware\<close>

record client_data =
  count :: nat
  resetTime :: int

type_synonym 'k rateLimitStore = "'k \<rightharpoonup> client_data"

definition windowMs :: int where
  "windowMs = 60 * 1000"

definition maxRequests :: nat where
  "maxRequests = 10"

text \<open>A middleware either calls \<^verbatim>\<open>next()\<close> or sends a response itself.\<close>

datatype middleware_result = Next | Respond http_response

text \<open>
  \<^verbatim>\<open>rateLimit(req, res, next)\<close>: \<open>clientId\<close> is \<^verbatim>\<open>req.ip\<close>, \<open>now\<close> is \<^verbatim>\<open>Date.now()\<close> in
  milliseconds. The store is the process-wide \<^verbatim>\<open>Map\<close>; the function returns the store
  after the call.
\<close>

definition rateLimit ::
  "int \<Rightarrow> 'k \<Rightarrow> 'k rateLimitStore \<Rightarrow> 'k rateLimitStore \<times> middleware_result" where
  "rateLimit now clientId store =
     (case store clientId of
        None \<Rightarrow>
          (store(clientId \<mapsto> \<lparr>count = 1, resetTime = now + windowMs\<rparr>), Next)
      | Some clientData \<Rightarrow>
          if now > resetTime clientData then
            (store(clientId \<mapsto> \<lparr>count = 1, resetTime = now + windowMs\<rparr>), Next)
          else if count clientData \<ge> maxRequests then
            (store, Respond \<lparr>status = 429,
               body = ErrorJson ''Too many requests. Please try again later.''\<rparr>)
          else
            (store(clientId \<mapsto> clientData\<lparr>count := count clientData + 1\<rparr>), Next))"

text \<open>A caller's requests at the given times, one after the other, on one store.\<close>

fun rateLimit_seq ::
  "'k \<Rightarrow> int list \<Rightarrow> 'k rateLimitStore \<Rightarrow> 'k rateLimitStore \<times> middleware_result list" where
  "rateLimit_seq clientId [] store = (store, [])"
| "rateLimit_seq clientId (now # nows) store =
     (case rateLimit now clientId store of
        (store', r) \<Rightarrow>
          (case rateLimit_seq clientId nows store' of
             (store'', rs) \<Rightarrow> (store'', r # rs)))"

subsection \<open>The upstream call and its retry loop\<close>

text \<open>
  One attempt \<^verbatim>\<open>await model.generateContent(prompt)\<close> followed by
  \<^verbatim>\<open>result.response.text()\<close> either yields the text or throws. The thrown value's
  \<^verbatim>\<open>message\<close> is a string, or is missing (\<open>None\<close>), in which case
  \<^verbatim>\<open>error.message.includes\<close> itself throws a TypeError inside the catch block.
\<close>

datatype upstream_outcome = Text string | Throws "string option"

text \<open>\<^verbatim>\<open>s.includes(t)\<close>: \<open>t\<close> occurs in \<open>s\<close> as a contiguous run.\<close>

fun includes_str :: "string \<Rightarrow> string \<Rightarrow> bool" where
  "includes_str [] t = (t = [])"
| "includes_str (c # cs) t = (prefix t (c # cs) \<or> includes_str cs t)"

text \<open>The test of the inner catch block; \<open>None\<close> when the test itself throws.\<close>

definition retryable :: "string option \<Rightarrow> bool option" where
  "retryable m =
     (case m of
        None \<Rightarrow> None
      | Some message \<Rightarrow> Some (includes_str message ''429'' \<or> includes_str message ''quota''))"

text \<open>What the handler observably did to the upstream: calls made and waits taken (ms).\<close>

record invocation =
  attempts :: nat
  waits :: "nat list"

text \<open>How the \<^verbatim>\<open>while (retries > 0)\<close> loop is left.\<close>

datatype loop_exit =
    LoopEnd "string option"
  | Return429
  | Rethrow

text \<open>
  The loop. \<open>gen k\<close> is the outcome of the upstream call number \<open>k\<close> (counted from 0)
  of this request. \<open>LoopEnd response\<close> is the fall-through to \<^verbatim>\<open>res.json({ response })\<close>:
  after \<^verbatim>\<open>break\<close> the variable is set, after the loop condition fails it is whatever it
  was before (undefined).
\<close>

fun retry_loop ::
  "(nat \<Rightarrow> upstream_outcome) \<Rightarrow> nat \<Rightarrow> invocation \<Rightarrow> loop_exit \<times> invocation" where
  "retry_loop gen retries tr =
     (if retries > 0 then
        (case gen (attempts tr) of
           Text r \<Rightarrow> (LoopEnd (Some r), tr\<lparr>attempts := attempts tr + 1\<rparr>)
         | Throws m \<Rightarrow>
             (case retryable m of
                Some True \<Rightarrow>
                  if retries - 1 > 0 then
                    retry_loop gen (retries - 1)
                      (tr\<lparr>attempts := attempts tr + 1, waits := waits tr @ [2000]\<rparr>)
                  else (Return429, tr\<lparr>attempts := attempts tr + 1\<rparr>)
              | _ \<Rightarrow> (Rethrow, tr\<lparr>attempts := attempts tr + 1\<rparr>)))
      else (LoopEnd None, tr))"

declare retry_loop.simps [simp del]

definition vishalBio :: string where
  "vishalBio =
     [CHR 0x0A] @
     ''You are speaking as Vishal Sanap, a full-stack developer from India who graduated in 2024,'' @
     [CHR 0x0A] @
     ''specializing in frontend with React and Next.js. You'' @ [CHR 0x27] @
     ''re exploring Generative AI voice-based apps.'' @
     [CHR 0x0A] @
     ''Keep responses conversational, friendly, and to-the-point.'' @
     [CHR 0x0A]"

text \<open>\<^verbatim>\<open>const prompt = vishalBio + "\n\nUser asked: " + question\<close>.\<close>

definition prompt :: "string \<Rightarrow> string" where
  "prompt question = vishalBio @ [CHR 0x0A, CHR 0x0A] @ ''User asked: '' @ question"

text \<open>
  The body of the \<^verbatim>\<open>/api/ask\<close> handler, run once the middleware has called \<^verbatim>\<open>next()\<close>.
  \<open>generateContent prompt k\<close> is the outcome of upstream call \<open>k\<close> for that prompt.
\<close>

definition ask_handler ::
  "(string \<Rightarrow> nat \<Rightarrow> upstream_outcome) \<Rightarrow> jsvalue \<Rightarrow> http_response \<times> invocation" where
  "ask_handler generateContent question =
     (if \<not> truthy question \<or> \<not> typeof_string question then
        (\<lparr>status = 400, body = ErrorJson ''Question is required and must be a string''\<rparr>,
         \<lparr>attempts = 0, waits = []\<rparr>)
      else
        (case question of
           JString q \<Rightarrow>
             if length q > 1000 then
               (\<lparr>status = 400, body = ErrorJson ''Question is too long (max 1000 characters)''\<rparr>,
                \<lparr>attempts = 0, waits = []\<rparr>)
             else
               (case retry_loop (generateContent (prompt q)) 3 \<lparr>attempts = 0, waits = []\<rparr> of
                  (LoopEnd response, tr) \<Rightarrow>
                    (\<lparr>status = 200, body = ResponseJson response\<rparr>, tr)
                | (Return429, tr) \<Rightarrow>
                    (\<lparr>status = 429,
                      body = ErrorJson ''AI service rate limit exceeded. Please try again later.''\<rparr>,
                     tr)
                | (Rethrow, tr) \<Rightarrow>
                    (\<lparr>status = 500,
                      body = ErrorJson ''Failed to generate response. Please try again.''\<rparr>,
                     tr))
         | _ \<Rightarrow>
             (\<lparr>status = 400, body = ErrorJson ''Question is required and must be a string''\<rparr>,
              \<lparr>attempts = 0, waits = []\<rparr>)))"

subsection \<open>The middleware chain of \<^verbatim>\<open>POST /api/ask\<close>\<close>

text \<open>
  A request with a JSON body, as it reaches the server. \<open>bodyQuestion\<close> is \<open>None\<close> when
  the body is not valid JSON, and otherwise the value the parsed body holds under
  \<^verbatim>\<open>question\<close>. The body takes one byte at least for every code unit of a string
  question; \<open>bodyExtra\<close> counts all its other bytes.
\<close>

record http_request =
  bodyQuestion :: "jsvalue option"
  bodyExtra :: nat

definition body_bytes :: "http_request \<Rightarrow> nat" where
  "body_bytes req =
     bodyExtra req +
     (case bodyQuestion req of
        Some (JString q) \<Rightarrow> length q
      | _ \<Rightarrow> 0)"

text \<open>The size limit of \<^verbatim>\<open>express.json()\<close> called without options: 100kb.\<close>

definition json_limit :: nat where
  "json_limit = 100 * 1024"

text \<open>
  \<^verbatim>\<open>app.use(express.json())\<close>: \<open>Some question\<close> when \<^verbatim>\<open>req.body\<close> is set and the chain
  goes on, \<open>None\<close> when the parser refuses the body (too large, or not JSON) and passes
  an error on.
\<close>

definition express_json :: "http_request \<Rightarrow> jsvalue option" where
  "express_json req =
     (if body_bytes req > json_limit then None else bodyQuestion req)"

text \<open>The error handling middleware, which answers every error passed on.\<close>

definition error_handling_middleware :: http_response where
  "error_handling_middleware = \<lparr>status = 500, body = ErrorJson ''Internal server error''\<rparr>"

text \<open>
  The chain for \<^verbatim>\<open>POST /api/ask\<close>: the body parser, then
  \<^verbatim>\<open>app.post('/api/ask', rateLimit, handler)\<close>, that is the rate limiter and then the
  handler. A body the parser refuses goes straight to the error handling middleware.
\<close>

definition post_api_ask ::
  "(string \<Rightarrow> nat \<Rightarrow> upstream_outcome) \<Rightarrow> int \<Rightarrow> 'k \<Rightarrow> http_request \<Rightarrow> 'k rateLimitStore \<Rightarrow>
     'k rateLimitStore \<times> http_response \<times> invocation" where
  "post_api_ask generateContent now clientId req store =
     (case express_json req of
        None \<Rightarrow> (store, error_handling_middleware, \<lparr>attempts = 0, waits = []\<rparr>)
      | Some question \<Rightarrow>
          (case rateLimit now clientId store of
             (store', Respond r) \<Rightarrow> (store', r, \<lparr>attempts = 0, waits = []\<rparr>)
           | (store', Next) \<Rightarrow> (store', ask_handler generateContent question)))"

section \<open>Client: the VoiceBot component (App.js)\<close>

subsection \<open>The answer request\<close>

text \<open>The arguments of the one \<^verbatim>\<open>fetch\<close> call; \<open>question\<close> is the field of the JSON body.\<close>

record fetch_request =
  url :: string
  "method" :: string
  question :: string

text \<open>
  How the \<^verbatim>\<open>fetch\<close> promise and the following \<^verbatim>\<open>response.json()\<close> settle: the transport
  fails, or a response arrives with its status and its body. The body is \<open>None\<close> when it
  is not JSON (then \<^verbatim>\<open>response.json()\<close> rejects), and otherwise holds the value of
  \<^verbatim>\<open>data.response\<close>, itself \<open>None\<close> when the field is missing (undefined).
\<close>

datatype fetch_outcome =
    TransportFailure
  | HttpResponse nat "string option option"

text \<open>\<^verbatim>\<open>response.ok\<close>: the status is in the range 200 to 299.\<close>

definition ok :: "nat \<Rightarrow> bool" where
  "ok st = (200 \<le> st \<and> st \<le> 299)"

datatype client_error =
    FetchRejected
  | Error string
  | JsonRejected

definition ask_request :: "string \<Rightarrow> fetch_request" where
  "ask_request q =
     \<lparr>url = ''https://voice-bot-react.onrender.com/api/ask'', method = ''POST'', question = q\<rparr>"

text \<open>The part of \<^verbatim>\<open>callGeminiAPI\<close> after \<^verbatim>\<open>await fetch(...)\<close>: \<open>Inl\<close> is a thrown error.\<close>

definition callGeminiAPI_settle :: "fetch_outcome \<Rightarrow> client_error + string option" where
  "callGeminiAPI_settle outcome =
     (case outcome of
        TransportFailure \<Rightarrow> Inl FetchRejected
      | HttpResponse st data \<Rightarrow>
          if \<not> ok st then Inl (Error ''Failed to get AI response'')
          else (case data of None \<Rightarrow> Inl JsonRejected | Some response \<Rightarrow> Inr response))"

text \<open>
  \<^verbatim>\<open>callGeminiAPI(question)\<close> against a network \<open>fetch\<close>: the value the promise settles
  with, and the requests that were sent.
\<close>

definition callGeminiAPI ::
  "string \<Rightarrow> (fetch_request \<Rightarrow> fetch_outcome) \<Rightarrow>
     (client_error + string option) \<times> fetch_request list" where
  "callGeminiAPI q fetch =
     (callGeminiAPI_settle (fetch (ask_request q)), [ask_request q])"

subsection \<open>Component state\<close>

datatype message_type = UserMsg | BotMsg

text \<open>
  One entry of \<^verbatim>\<open>conversation\<close>. The text of a bot entry is \<^verbatim>\<open>data.response\<close>, which is
  undefined (\<open>None\<close>) when the answer carries no such field.
\<close>

record message =
  type :: message_type
  "text" :: "string option"

text \<open>Calls the component makes on the browser's speech objects and on the network.\<close>

datatype command =
    RecognitionStart
  | RecognitionStop
  | SynthCancel
  | SynthSpeak "string option"
  | Fetch fetch_request

text \<open>
  The \<^verbatim>\<open>useState\<close> cells, the two refs (\<open>True\<close> when \<^verbatim>\<open>.current\<close> is set), and the
  calls made so far, oldest first.
\<close>

record vstate =
  isListening :: bool
  isProcessing :: bool
  isSpeaking :: bool
  conversation :: "message list"
  currentTranscript :: string
  error :: string
  isSupported :: bool
  recognitionRef :: bool
  synthRef :: bool
  commands :: "command list"

text \<open>
  The state after the first render and the mount effect; the arguments say whether the
  browser offers \<^verbatim>\<open>SpeechRecognition\<close> and \<^verbatim>\<open>speechSynthesis\<close>.
\<close>

definition mount :: "bool \<Rightarrow> bool \<Rightarrow> vstate" where
  "mount hasRecognition hasSynthesis =
     (let s0 = \<lparr>isListening = False, isProcessing = False, isSpeaking = False,
                conversation = [], currentTranscript = [], error = [],
                isSupported = True, recognitionRef = False, synthRef = False,
                commands = []\<rparr>
      in if \<not> hasRecognition \<or> \<not> hasSynthesis then
           s0\<lparr>isSupported := False,
              error := ''Your browser does not support speech recognition or synthesis. Please use Chrome or Edge.''\<rparr>
         else s0\<lparr>recognitionRef := True, synthRef := True\<rparr>)"

subsection \<open>Callbacks of the recognition object\<close>

definition recognition_onstart :: "vstate \<Rightarrow> vstate" where
  "recognition_onstart s = s\<lparr>isListening := True, error := []\<rparr>"

text \<open>
  \<^verbatim>\<open>onresult\<close> up to \<^verbatim>\<open>await callGeminiAPI(transcript)\<close>: the request is sent and the
  handler is suspended.
\<close>

definition recognition_onresult :: "string \<Rightarrow> vstate \<Rightarrow> vstate" where
  "recognition_onresult transcript s =
     s\<lparr>currentTranscript := transcript,
       isListening := False,
       isProcessing := True,
       conversation := conversation s @ [\<lparr>type = UserMsg, text = Some transcript\<rparr>],
       commands := commands s @ [Fetch (ask_request transcript)]\<rparr>"

definition speakText :: "string option \<Rightarrow> vstate \<Rightarrow> vstate" where
  "speakText t s =
     (if \<not> synthRef s then s
      else s\<lparr>commands := commands s @ [SynthCancel, SynthSpeak t]\<rparr>)"

text \<open>
  The rest of \<^verbatim>\<open>onresult\<close>, run when the request has settled: the remainder of the
  \<^verbatim>\<open>try\<close> block, or the \<^verbatim>\<open>catch\<close> block, and then \<^verbatim>\<open>finally\<close>.
\<close>

definition recognition_onresult_resume :: "fetch_outcome \<Rightarrow> vstate \<Rightarrow> vstate" where
  "recognition_onresult_resume outcome s =
     (case callGeminiAPI_settle outcome of
        Inr response \<Rightarrow>
          (speakText response
             (s\<lparr>conversation := conversation s @ [\<lparr>type = BotMsg, text = response\<rparr>]\<rparr>))
          \<lparr>isProcessing := False\<rparr>
      | Inl err \<Rightarrow>
          s\<lparr>error := ''Failed to get AI response. Please try again.'',
            isProcessing := False\<rparr>)"

definition errorMessage :: "string \<Rightarrow> string" where
  "errorMessage e =
     (if e = ''network'' then
        ''Network error. Please check your internet connection and try again. Note: HTTPS may be required.''
      else if e = ''not-allowed'' then
        ''Microphone access denied. Please allow microphone permissions and refresh the page.''
      else if e = ''no-speech'' then
        ''No speech detected. Please try speaking again.''
      else if e = ''aborted'' then
        ''Speech recognition was aborted.''
      else ''Speech recognition error: '' @ e)"

definition recognition_onerror :: "string \<Rightarrow> vstate \<Rightarrow> vstate" where
  "recognition_onerror e s =
     s\<lparr>isListening := False, isProcessing := False, error := errorMessage e\<rparr>"

definition recognition_onend :: "vstate \<Rightarrow> vstate" where
  "recognition_onend s = s\<lparr>isListening := False\<rparr>"

subsection \<open>Callbacks of an utterance\<close>

definition utterance_onstart :: "vstate \<Rightarrow> vstate" where
  "utterance_onstart s = s\<lparr>isSpeaking := True\<rparr>"

definition utterance_onend :: "vstate \<Rightarrow> vstate" where
  "utterance_onend s = s\<lparr>isSpeaking := False\<rparr>"

definition utterance_onerror :: "vstate \<Rightarrow> vstate" where
  "utterance_onerror s = s\<lparr>isSpeaking := False\<rparr>"

subsection \<open>Operations behind the buttons\<close>

definition startListening :: "vstate \<Rightarrow> vstate" where
  "startListening s =
     (if \<not> recognitionRef s \<or> isListening s \<or> isProcessing s then s
      else s\<lparr>error := [], currentTranscript := [],
             commands := commands s @ [RecognitionStart]\<rparr>)"

definition stopListening :: "vstate \<Rightarrow> vstate" where
  "stopListening s =
     (if recognitionRef s \<and> isListening s
      then s\<lparr>commands := commands s @ [RecognitionStop]\<rparr>
      else s)"

definition stopSpeaking :: "vstate \<Rightarrow> vstate" where
  "stopSpeaking s =
     (if synthRef s
      then s\<lparr>commands := commands s @ [SynthCancel], isSpeaking := False\<rparr>
      else s)"

definition clearConversation :: "vstate \<Rightarrow> vstate" where
  "clearConversation s =
     stopSpeaking (s\<lparr>conversation := [], currentTranscript := [], error := []\<rparr>)"

subsection \<open>Event sequences\<close>

text \<open>Everything that can happen to the mounted component, one handler at a time.\<close>

datatype event =
    StartListening
  | StopListening
  | StopSpeaking
  | ClearConversation
  | RecOnStart
  | RecOnResult string
  | RecOnError string
  | RecOnEnd
  | FetchSettled fetch_outcome
  | UttOnStart
  | UttOnEnd
  | UttOnError

fun step :: "event \<Rightarrow> vstate \<Rightarrow> vstate" where
  "step StartListening s = startListening s"
| "step StopListening s = stopListening s"
| "step StopSpeaking s = stopSpeaking s"
| "step ClearConversation s = clearConversation s"
| "step RecOnStart s = recognition_onstart s"
| "step (RecOnResult transcript) s = recognition_onresult transcript s"
| "step (RecOnError e) s = recognition_onerror e s"
| "step RecOnEnd s = recognition_onend s"
| "step (FetchSettled outcome) s = recognition_onresult_resume outcome s"
| "step UttOnStart s = utterance_onstart s"
| "step UttOnEnd s = utterance_onend s"
| "step UttOnError s = utterance_onerror s"

fun run :: "event list \<Rightarrow> vstate \<Rightarrow> vstate" where
  "run [] s = s"
| "run (e # es) s = run es (step e s)"

text \<open>
  Which buttons the rendered page offers in a state: the microphone button is disabled
  while processing and toggles between start and stop, the stop-speaking button is shown
  while speaking, the clear button while the conversation is not empty; an unsupported
  browser gets no buttons at all.
\<close>

fun offered :: "event \<Rightarrow> vstate \<Rightarrow> bool" where
  "offered StartListening s = (isSupported s \<and> \<not> isProcessing s \<and> \<not> isListening s)"
| "offered StopListening s = (isSupported s \<and> \<not> isProcessing s \<and> isListening s)"
| "offered StopSpeaking s = (isSupported s \<and> isSpeaking s)"
| "offered ClearConversation s = (isSupported s \<and> conversation s \<noteq> [])"
| "offered e s = True"

text \<open>The four session states of the specification, read off the three flags.\<close>

definition Idle :: "vstate \<Rightarrow> bool" where
  "Idle s = (\<not> isListening s \<and> \<not> isProcessing s \<and> \<not> isSpeaking s)"

definition Listening :: "vstate \<Rightarrow> bool" where
  "Listening s = (isListening s \<and> \<not> isProcessing s \<and> \<not> isSpeaking s)"

definition Processing :: "vstate \<Rightarrow> bool" where
  "Processing s = (\<not> isListening s \<and> isProcessing s \<and> \<not> isSpeaking s)"

definition Speaking :: "vstate \<Rightarrow> bool" where
  "Speaking s = (\<not> isListening s \<and> \<not> isProcessing s \<and> isSpeaking s)"

subsection \<open>The recognition session, as the browser runs it\<close>

text \<open>The calls that the handler of event \<open>e\<close>, run in state \<open>s\<close>, adds to the log.\<close>

definition emitted :: "event \<Rightarrow> vstate \<Rightarrow> command list" where
  "emitted e s = drop (length (commands s)) (commands (step e s))"

text \<open>
  The recognition service is the browser's. A session is requested by \<^verbatim>\<open>start()\<close>,
  announces itself with the start event, may then deliver results and errors, and
  finishes with the end event.
\<close>

datatype rec_phase = RecIdle | RecStarting | RecRunning

text \<open>
  The phase after the component has made the given calls: \<^verbatim>\<open>start()\<close> requests a
  session when there is none, and does not open a second one.
\<close>

fun rec_requests :: "command list \<Rightarrow> rec_phase \<Rightarrow> rec_phase" where
  "rec_requests [] ph = ph"
| "rec_requests (RecognitionStart # cs) ph =
     rec_requests cs (if ph = RecIdle then RecStarting else ph)"
| "rec_requests (c # cs) ph = rec_requests cs ph"

text \<open>
  The phase in which the session delivers a callback, and the phase it is in afterwards;
  \<open>None\<close> when the session cannot deliver the callback in that phase. Events that are
  not callbacks of the recognition object leave the phase alone.
\<close>

fun rec_deliver :: "event \<Rightarrow> rec_phase \<Rightarrow> rec_phase option" where
  "rec_deliver RecOnStart ph = (if ph = RecStarting then Some RecRunning else None)"
| "rec_deliver (RecOnResult transcript) ph = (if ph = RecRunning then Some RecRunning else None)"
| "rec_deliver (RecOnError e) ph = (if ph = RecIdle then None else Some ph)"
| "rec_deliver RecOnEnd ph = (if ph = RecIdle then None else Some RecIdle)"
| "rec_deliver e ph = Some ph"

text \<open>
  One event: it must be deliverable in the current phase, and the calls its handler makes
  then act on the session.
\<close>

definition rec_next :: "event \<Rightarrow> vstate \<Rightarrow> rec_phase \<Rightarrow> rec_phase option" where
  "rec_next e s ph =
     (case rec_deliver e ph of
        None \<Rightarrow> None
      | Some ph' \<Rightarrow> Some (rec_requests (emitted e s) ph'))"

text \<open>An event sequence that the recognition session can deliver, from phase \<open>ph\<close> on.\<close>

fun session_ok :: "event list \<Rightarrow> vstate \<Rightarrow> rec_phase \<Rightarrow> bool" where
  "session_ok [] s ph = True"
| "session_ok (e # es) s ph =
     (case rec_next e s ph of
        None \<Rightarrow> False
      | Some ph' \<Rightarrow> session_ok es (step e s) ph')"

text \<open>
  While a request is being processed the component is not listening and no recognition
  session is waiting for its start event.
\<close>

definition rec_inv :: "vstate \<Rightarrow> rec_phase \<Rightarrow> bool" where
  "rec_inv s ph = (isProcessing s \<longrightarrow> \<not> isListening s \<and> ph \<noteq> RecStarting)"

section \<open>The client's request, answered by the proxy\<close>

text \<open>
  A network whose far end is the proxy: the JSON body \<^verbatim>\<open>{question}\<close> of the request is
  what the body parser reads, with \<open>extra\<close> bytes besides the code units of the question,
  and the JSON answer of the server is what \<^verbatim>\<open>response.json()\<close> yields. An error body
  has no \<^verbatim>\<open>response\<close> field.
\<close>

definition server_fetch ::
  "(string \<Rightarrow> nat \<Rightarrow> upstream_outcome) \<Rightarrow> int \<Rightarrow> 'k \<Rightarrow> 'k rateLimitStore \<Rightarrow> nat \<Rightarrow>
     fetch_request \<Rightarrow> fetch_outcome" where
  "server_fetch generateContent now clientId store extra req =
     (case post_api_ask generateContent now clientId
             \<lparr>bodyQuestion = Some (JString (question req)), bodyExtra = extra\<rparr> store of
        (store', resp, tr) \<Rightarrow>
          HttpResponse (status resp)
            (Some (case body resp of ErrorJson e \<Rightarrow> None | ResponseJson r \<Rightarrow> r)))"

section \<open>Properties of the server\<close>

subsection \<open>Auxiliary facts\<close>

lemma rateLimit_fresh:
  "store c = None \<Longrightarrow>
   rateLimit now c store = (store(c \<mapsto> \<lparr>count = 1, resetTime = now + 60000\<rparr>), Next)"
  by (simp add: rateLimit_def windowMs_def)

lemma rateLimit_expired:
  "store c = Some d \<Longrightarrow> now > resetTime d \<Longrightarrow>
   rateLimit now c store = (store(c \<mapsto> \<lparr>count = 1, resetTime = now + 60000\<rparr>), Next)"
  by (simp add: rateLimit_def windowMs_def)

lemma rateLimit_increment:
  "store c = Some d \<Longrightarrow> \<not> now > resetTime d \<Longrightarrow> count d < 10 \<Longrightarrow>
   rateLimit now c store = (store(c \<mapsto> d\<lparr>count := count d + 1\<rparr>), Next)"
  by (simp add: rateLimit_def maxRequests_def)

lemma rateLimit_reject:
  "store c = Some d \<Longrightarrow> \<not> now > resetTime d \<Longrightarrow> count d \<ge> 10 \<Longrightarrow>
   rateLimit now c store =
     (store, Respond \<lparr>status = 429, body = ErrorJson ''Too many requests. Please try again later.''\<rparr>)"
  by (simp add: rateLimit_def maxRequests_def)

lemma rateLimit_seq_within:
  "store c = Some d \<Longrightarrow> \<forall>t \<in> set ts. t \<le> resetTime d \<Longrightarrow> count d + length ts \<le> 10 \<Longrightarrow>
   rateLimit_seq c ts store =
     (store(c \<mapsto> d\<lparr>count := count d + length ts\<rparr>), replicate (length ts) Next)"
proof (induction ts arbitrary: store d)
  case Nil
  then show ?case by (simp add: map_upd_triv)
next
  case (Cons t ts)
  let ?d' = "d\<lparr>count := count d + 1\<rparr>"
  let ?store' = "store(c \<mapsto> ?d')"
  have step: "rateLimit t c store = (?store', Next)"
    using Cons.prems by (intro rateLimit_increment) auto
  have "rateLimit_seq c ts ?store' =
          (?store'(c \<mapsto> ?d'\<lparr>count := count ?d' + length ts\<rparr>), replicate (length ts) Next)"
    using Cons.prems by (intro Cons.IH) auto
  with step show ?case by (auto simp: fun_upd_def)
qed

lemma rateLimit_seq_append:
  "rateLimit_seq c (ts @ us) store =
     (case rateLimit_seq c ts store of
        (store', rs) \<Rightarrow>
          (case rateLimit_seq c us store' of (store'', rs') \<Rightarrow> (store'', rs @ rs')))"
  by (induction ts arbitrary: store) (auto split: prod.splits)

lemma rateLimit_other:
  "c' \<noteq> c \<Longrightarrow> fst (rateLimit now c' store) c = store c"
  by (simp add: rateLimit_def split: option.splits)

lemma includes_str_iff: "includes_str s t \<longleftrightarrow> (\<exists>ps ss. s = ps @ t @ ss)"
proof -
  have "includes_str s t \<longleftrightarrow> sublist t s"
    by (induction s) (simp_all add: sublist_Cons_right)
  then show ?thesis by (simp add: sublist_def)
qed

lemma retry_loop_text:
  "0 < n \<Longrightarrow> gen (attempts tr) = Text r \<Longrightarrow>
   retry_loop gen n tr = (LoopEnd (Some r), tr\<lparr>attempts := attempts tr + 1\<rparr>)"
  by (subst retry_loop.simps) simp

lemma retry_loop_retry:
  "1 < n \<Longrightarrow> gen (attempts tr) = Throws m \<Longrightarrow> retryable m = Some True \<Longrightarrow>
   retry_loop gen n tr =
     retry_loop gen (n - 1) (tr\<lparr>attempts := attempts tr + 1, waits := waits tr @ [2000]\<rparr>)"
  by (subst retry_loop.simps) simp

lemma retry_loop_exhausted:
  "n = 1 \<Longrightarrow> gen (attempts tr) = Throws m \<Longrightarrow> retryable m = Some True \<Longrightarrow>
   retry_loop gen n tr = (Return429, tr\<lparr>attempts := attempts tr + 1\<rparr>)"
  by (subst retry_loop.simps) simp

lemma retry_loop_rethrow:
  "0 < n \<Longrightarrow> gen (attempts tr) = Throws m \<Longrightarrow> retryable m \<noteq> Some True \<Longrightarrow>
   retry_loop gen n tr = (Rethrow, tr\<lparr>attempts := attempts tr + 1\<rparr>)"
  by (subst retry_loop.simps) (auto split: option.splits bool.splits)

lemma ask_handler_valid:
  "q \<noteq> [] \<Longrightarrow> length q \<le> 1000 \<Longrightarrow>
   ask_handler generateContent (JString q) =
     (case retry_loop (generateContent (prompt q)) 3 \<lparr>attempts = 0, waits = []\<rparr> of
        (LoopEnd response, tr) \<Rightarrow> (\<lparr>status = 200, body = ResponseJson response\<rparr>, tr)
      | (Return429, tr) \<Rightarrow>
          (\<lparr>status = 429,
            body = ErrorJson ''AI service rate limit exceeded. Please try again later.''\<rparr>, tr)
      | (Rethrow, tr) \<Rightarrow>
          (\<lparr>status = 500,
            body = ErrorJson ''Failed to generate response. Please try again.''\<rparr>, tr))"
  by (simp add: ask_handler_def)

text \<open>The loop after \<open>j\<close> retryable failures in a row: \<open>j\<close> calls and \<open>j\<close> waits later.\<close>

lemma retry_loop_prefix:
  assumes "\<forall>k < j. \<exists>m. gen (attempts tr + k) = Throws m \<and> retryable m = Some True"
    and "j < n"
  shows "retry_loop gen n tr =
           retry_loop gen (n - j)
             (tr\<lparr>attempts := attempts tr + j, waits := waits tr @ replicate j 2000\<rparr>)"
  using assms
proof (induction j arbitrary: n tr)
  case 0
  then show ?case by simp
next
  case (Suc j)
  from Suc.prems(1) obtain m where m: "gen (attempts tr) = Throws m" "retryable m = Some True"
    by force
  let ?tr = "tr\<lparr>attempts := attempts tr + 1, waits := waits tr @ [2000]\<rparr>"
  have "retry_loop gen n tr = retry_loop gen (n - 1) ?tr"
    using m Suc.prems(2) by (intro retry_loop_retry) auto
  also have "\<dots> = retry_loop gen (n - 1 - j)
       (?tr\<lparr>attempts := attempts ?tr + j, waits := waits ?tr @ replicate j 2000\<rparr>)"
  proof (rule Suc.IH)
    show "\<forall>k<j. \<exists>m. gen (attempts ?tr + k) = Throws m \<and> retryable m = Some True"
      using Suc.prems(1) by (auto dest: spec[where x = "Suc _"])
    show "j < n - 1" using Suc.prems(2) by simp
  qed
  finally show ?case by (simp add: replicate_append_same)
qed

lemma retry_loop_twice_then_ok:
  assumes "gen 0 = Throws m1" "retryable m1 = Some True"
    and "gen 1 = Throws m2" "retryable m2 = Some True"
    and "gen 2 = Text r"
  shows "retry_loop gen 3 \<lparr>attempts = 0, waits = []\<rparr> =
           (LoopEnd (Some r), \<lparr>attempts = 3, waits = [2000, 2000]\<rparr>)"
proof -
  have "\<forall>k<2. \<exists>m. gen (attempts \<lparr>attempts = 0, waits = []\<rparr> + k) = Throws m \<and> retryable m = Some True"
    using assms(1-4) by (auto simp: less_Suc_eq numeral_2_eq_2)
  then have "retry_loop gen 3 \<lparr>attempts = 0, waits = []\<rparr> =
        retry_loop gen (3 - 2) \<lparr>attempts = 2, waits = [2000, 2000]\<rparr>"
    by (subst retry_loop_prefix[where j = 2]) (simp_all add: numeral_2_eq_2)
  also have "\<dots> = (LoopEnd (Some r), \<lparr>attempts = 3, waits = [2000, 2000]\<rparr>)"
    using assms(5) by (subst retry_loop_text[where r = r]) simp_all
  finally show ?thesis .
qed

lemma retry_loop_always_failing:
  assumes "\<forall>k<3. \<exists>m. gen k = Throws m \<and> retryable m = Some True"
  shows "retry_loop gen 3 \<lparr>attempts = 0, waits = []\<rparr> =
           (Return429, \<lparr>attempts = 3, waits = [2000, 2000]\<rparr>)"
proof -
  have "(2::nat) < 3" by simp
  with assms obtain m3 where m3: "gen 2 = Throws m3" "retryable m3 = Some True"
    by blast
  have "\<forall>k<2. \<exists>m. gen (attempts \<lparr>attempts = 0, waits = []\<rparr> + k) = Throws m \<and> retryable m = Some True"
    using assms by simp
  then have "retry_loop gen 3 \<lparr>attempts = 0, waits = []\<rparr> =
        retry_loop gen (3 - 2) \<lparr>attempts = 2, waits = [2000, 2000]\<rparr>"
    by (subst retry_loop_prefix[where j = 2]) (simp_all add: numeral_2_eq_2)
  also have "\<dots> = (Return429, \<lparr>attempts = 3, waits = [2000, 2000]\<rparr>)"
    using m3 by (subst retry_loop_exhausted[where m = m3]) simp_all
  finally show ?thesis .
qed

lemma ask_handler_invalid:
  "\<not> truthy q \<or> \<not> typeof_string q \<or> (\<exists>s. q = JString s \<and> length s > 1000) \<Longrightarrow>
   status (fst (ask_handler generateContent q)) = 400 \<and>
   snd (ask_handler generateContent q) = \<lparr>attempts = 0, waits = []\<rparr>"
  by (cases q) (auto simp: ask_handler_def)


lemma post_api_ask_admitted:
  "express_json req = Some q \<Longrightarrow> rateLimit now c store = (store', Next) \<Longrightarrow>
   post_api_ask generateContent now c req store = (store', ask_handler generateContent q)"
  by (simp add: post_api_ask_def)

lemma post_api_ask_refused:
  "express_json req = None \<Longrightarrow>
   post_api_ask generateContent now c req store =
     (store, \<lparr>status = 500, body = ErrorJson ''Internal server error''\<rparr>,
      \<lparr>attempts = 0, waits = []\<rparr>)"
  by (simp add: post_api_ask_def error_handling_middleware_def)

subsection \<open>The rate limiter\<close>

text \<open>
  Claim C3. For every caller identity the rate limiter admits a request and stores
  \<open>count = 1\<close> with reset time \<open>now + 60s\<close> when the caller has no record or
  \<open>now\<close> is past the reset time; it admits and increments when the count is below 10;
  with a count of at least 10 inside the window it answers HTTP 429 and leaves the store
  as it was. Another caller's request does not touch this caller's record. Hence, from a
  fresh window, ten requests inside the window are admitted, the eleventh is rejected, and
  a request after the window is admitted with the count back at 1.
\<close>

theorem rateLimit_fixed_window:
  fixes store :: "'k rateLimitStore"
  shows
  "(store c = None \<or> (\<exists>d. store c = Some d \<and> now > resetTime d) \<longrightarrow>
      rateLimit now c store =
        (store(c \<mapsto> \<lparr>count = 1, resetTime = now + 60000\<rparr>), Next)) \<and>
   (\<forall>d. store c = Some d \<and> \<not> now > resetTime d \<and> count d < 10 \<longrightarrow>
      rateLimit now c store = (store(c \<mapsto> d\<lparr>count := count d + 1\<rparr>), Next)) \<and>
   (\<forall>d. store c = Some d \<and> \<not> now > resetTime d \<and> count d \<ge> 10 \<longrightarrow>
      rateLimit now c store =
        (store, Respond \<lparr>status = 429,
                  body = ErrorJson ''Too many requests. Please try again later.''\<rparr>)) \<and>
   (c' \<noteq> c \<longrightarrow> fst (rateLimit now c' store) c = store c) \<and>
   ((store c = None \<or> (\<exists>d. store c = Some d \<and> t1 > resetTime d)) \<and>
    length ts = 9 \<and> (\<forall>t \<in> set ts. t \<le> t1 + 60000) \<and> t11 \<le> t1 + 60000 \<and>
    t12 > t1 + 60000 \<longrightarrow>
      rateLimit_seq c (t1 # ts @ [t11, t12]) store =
        (store(c \<mapsto> \<lparr>count = 1, resetTime = t12 + 60000\<rparr>),
         replicate 10 Next @
         [Respond \<lparr>status = 429,
            body = ErrorJson ''Too many requests. Please try again later.''\<rparr>,
          Next]))"
proof (intro conjI allI impI)
  assume "store c = None \<or> (\<exists>d. store c = Some d \<and> now > resetTime d)"
  then show "rateLimit now c store =
        (store(c \<mapsto> \<lparr>count = 1, resetTime = now + 60000\<rparr>), Next)"
    by (auto simp: rateLimit_fresh rateLimit_expired)
next
  fix d assume "store c = Some d \<and> \<not> now > resetTime d \<and> count d < 10"
  then show "rateLimit now c store = (store(c \<mapsto> d\<lparr>count := count d + 1\<rparr>), Next)"
    by (simp add: rateLimit_increment)
next
  fix d assume "store c = Some d \<and> \<not> now > resetTime d \<and> count d \<ge> 10"
  then show "rateLimit now c store =
        (store, Respond \<lparr>status = 429,
                  body = ErrorJson ''Too many requests. Please try again later.''\<rparr>)"
    by (simp add: rateLimit_reject)
next
  assume "c' \<noteq> c"
  then show "fst (rateLimit now c' store) c = store c"
    by (rule rateLimit_other)
next
  assume a: "(store c = None \<or> (\<exists>d. store c = Some d \<and> t1 > resetTime d)) \<and>
    length ts = 9 \<and> (\<forall>t \<in> set ts. t \<le> t1 + 60000) \<and> t11 \<le> t1 + 60000 \<and>
    t12 > t1 + 60000"
  let ?d1 = "\<lparr>count = 1, resetTime = t1 + 60000\<rparr>"
  let ?s1 = "store(c \<mapsto> ?d1)"
  let ?d10 = "?d1\<lparr>count := count ?d1 + length ts\<rparr>"
  let ?s10 = "?s1(c \<mapsto> ?d10)"
  let ?r429 = "Respond \<lparr>status = 429,
                  body = ErrorJson ''Too many requests. Please try again later.''\<rparr>"
  have first: "rateLimit t1 c store = (?s1, Next)"
    using a by (auto simp: rateLimit_fresh rateLimit_expired)
  have mid: "rateLimit_seq c ts ?s1 = (?s10, replicate (length ts) Next)"
    using a by (intro rateLimit_seq_within) auto
  have eleventh: "rateLimit t11 c ?s10 = (?s10, ?r429)"
    using a by (intro rateLimit_reject[where d = ?d10]) auto
  have twelfth: "rateLimit t12 c ?s10 =
      (?s10(c \<mapsto> \<lparr>count = 1, resetTime = t12 + 60000\<rparr>), Next)"
    using a by (intro rateLimit_expired[where d = ?d10]) auto
  have "rateLimit_seq c [t11, t12] ?s10 =
      (?s10(c \<mapsto> \<lparr>count = 1, resetTime = t12 + 60000\<rparr>), [?r429, Next])"
    using eleventh twelfth by simp
  moreover have "replicate 10 Next = Next # replicate 9 Next"
    by (simp add: eval_nat_numeral)
  ultimately
  show "rateLimit_seq c (t1 # ts @ [t11, t12]) store =
        (store(c \<mapsto> \<lparr>count = 1, resetTime = t12 + 60000\<rparr>),
         replicate 10 Next @ [?r429, Next])"
    using first mid a by (simp add: rateLimit_seq_append)
qed

theorem rateLimit_fixed_window_witness:
  "rateLimit 5 ''203.0.113.7'' Map.empty =
     ([''203.0.113.7'' \<mapsto> \<lparr>count = 1, resetTime = 60005\<rparr>], Next) \<and>
   rateLimit 70000 ''203.0.113.7'' [''203.0.113.7'' \<mapsto> \<lparr>count = 10, resetTime = 60005\<rparr>] =
     ([''203.0.113.7'' \<mapsto> \<lparr>count = 1, resetTime = 130000\<rparr>], Next) \<and>
   rateLimit 100 ''203.0.113.7'' [''203.0.113.7'' \<mapsto> \<lparr>count = 9, resetTime = 60005\<rparr>] =
     ([''203.0.113.7'' \<mapsto> \<lparr>count = 10, resetTime = 60005\<rparr>], Next) \<and>
   rateLimit 60005 ''203.0.113.7'' [''203.0.113.7'' \<mapsto> \<lparr>count = 10, resetTime = 60005\<rparr>] =
     ([''203.0.113.7'' \<mapsto> \<lparr>count = 10, resetTime = 60005\<rparr>],
      Respond \<lparr>status = 429, body = ErrorJson ''Too many requests. Please try again later.''\<rparr>) \<and>
   fst (rateLimit 100 ''198.51.100.2'' [''203.0.113.7'' \<mapsto> \<lparr>count = 10, resetTime = 60005\<rparr>])
     ''203.0.113.7'' = Some \<lparr>count = 10, resetTime = 60005\<rparr> \<and>
   rateLimit_seq ''203.0.113.7'' (0 # [1, 2, 3, 4, 5, 6, 7, 8, 9] @ [60000, 60001]) Map.empty =
     ([''203.0.113.7'' \<mapsto> \<lparr>count = 1, resetTime = 120001\<rparr>],
      replicate 10 Next @
      [Respond \<lparr>status = 429, body = ErrorJson ''Too many requests. Please try again later.''\<rparr>,
       Next])"
proof -
  let ?ip = "''203.0.113.7''"
  let ?full = "[?ip \<mapsto> \<lparr>count = 10, resetTime = 60005\<rparr>]"
  have "rateLimit 5 ?ip Map.empty = ([?ip \<mapsto> \<lparr>count = 1, resetTime = 60005\<rparr>], Next)"
    using rateLimit_fixed_window[where store = "Map.empty" and c = ?ip and now = 5,
        THEN conjunct1]
    by simp
  moreover have "rateLimit 70000 ?ip ?full = ([?ip \<mapsto> \<lparr>count = 1, resetTime = 130000\<rparr>], Next)"
    using rateLimit_fixed_window[where store = ?full and c = ?ip and now = 70000,
        THEN conjunct1]
    by simp
  moreover have "rateLimit 100 ?ip [?ip \<mapsto> \<lparr>count = 9, resetTime = 60005\<rparr>] = (?full, Next)"
    using rateLimit_fixed_window[where store = "[?ip \<mapsto> \<lparr>count = 9, resetTime = 60005\<rparr>]"
        and c = ?ip and now = 100, THEN conjunct2, THEN conjunct1]
    by simp
  moreover have "rateLimit 60005 ?ip ?full =
     (?full, Respond \<lparr>status = 429, body = ErrorJson ''Too many requests. Please try again later.''\<rparr>)"
    using rateLimit_fixed_window[where store = ?full and c = ?ip and now = 60005,
        THEN conjunct2, THEN conjunct2, THEN conjunct1]
    by simp
  moreover have "fst (rateLimit 100 ''198.51.100.2'' ?full) ?ip =
     Some \<lparr>count = 10, resetTime = 60005\<rparr>"
    using rateLimit_fixed_window[where store = ?full and c = ?ip and c' = "''198.51.100.2''"
        and now = 100, THEN conjunct2, THEN conjunct2, THEN conjunct2, THEN conjunct1]
    by simp
  moreover have "rateLimit_seq ?ip (0 # [1, 2, 3, 4, 5, 6, 7, 8, 9] @ [60000, 60001]) Map.empty =
     ([?ip \<mapsto> \<lparr>count = 1, resetTime = 120001\<rparr>],
      replicate 10 Next @
      [Respond \<lparr>status = 429, body = ErrorJson ''Too many requests. Please try again later.''\<rparr>,
       Next])"
    using rateLimit_fixed_window[where store = "Map.empty" and c = ?ip and ?t1.0 = 0
          and ts = "[1, 2, 3, 4, 5, 6, 7, 8, 9]" and ?t11.0 = 60000 and ?t12.0 = 60001
          and now = 0, THEN conjunct2, THEN conjunct2, THEN conjunct2, THEN conjunct2]
    by simp
  ultimately show ?thesis by blast
qed

subsection \<open>The retry loop\<close>

text \<open>
  Claim C4. For a valid question, an upstream that fails retryably twice and then succeeds
  makes the handler answer 200 with the success value after exactly three upstream calls
  and one wait of 2000 ms before each retry; an upstream that always fails retryably makes
  it answer 429 after exactly three calls, with no further call.
\<close>

theorem retrying_invoker:
  assumes "q \<noteq> []" and "length q \<le> 1000"
  shows
  "(generateContent (prompt q) 0 = Throws m1 \<and> retryable m1 = Some True \<and>
    generateContent (prompt q) 1 = Throws m2 \<and> retryable m2 = Some True \<and>
    generateContent (prompt q) 2 = Text r \<longrightarrow>
      retry_loop (generateContent (prompt q)) 3 \<lparr>attempts = 0, waits = []\<rparr> =
        (LoopEnd (Some r), \<lparr>attempts = 3, waits = [2000, 2000]\<rparr>) \<and>
      ask_handler generateContent (JString q) =
        (\<lparr>status = 200, body = ResponseJson (Some r)\<rparr>,
         \<lparr>attempts = 3, waits = [2000, 2000]\<rparr>)) \<and>
   ((\<forall>k. \<exists>m. generateContent (prompt q) k = Throws m \<and> retryable m = Some True) \<longrightarrow>
      retry_loop (generateContent (prompt q)) 3 \<lparr>attempts = 0, waits = []\<rparr> =
        (Return429, \<lparr>attempts = 3, waits = [2000, 2000]\<rparr>) \<and>
      ask_handler generateContent (JString q) =
        (\<lparr>status = 429,
          body = ErrorJson ''AI service rate limit exceeded. Please try again later.''\<rparr>,
         \<lparr>attempts = 3, waits = [2000, 2000]\<rparr>))"
proof (intro conjI impI)
  assume a: "generateContent (prompt q) 0 = Throws m1 \<and> retryable m1 = Some True \<and>
    generateContent (prompt q) 1 = Throws m2 \<and> retryable m2 = Some True \<and>
    generateContent (prompt q) 2 = Text r"
  then show loop: "retry_loop (generateContent (prompt q)) 3 \<lparr>attempts = 0, waits = []\<rparr> =
        (LoopEnd (Some r), \<lparr>attempts = 3, waits = [2000, 2000]\<rparr>)"
    by (intro retry_loop_twice_then_ok[where ?m1.0 = m1 and ?m2.0 = m2]) simp_all
  show "ask_handler generateContent (JString q) =
        (\<lparr>status = 200, body = ResponseJson (Some r)\<rparr>,
         \<lparr>attempts = 3, waits = [2000, 2000]\<rparr>)"
    using assms by (simp add: ask_handler_valid loop)
next
  assume a: "\<forall>k. \<exists>m. generateContent (prompt q) k = Throws m \<and> retryable m = Some True"
  then show loop: "retry_loop (generateContent (prompt q)) 3 \<lparr>attempts = 0, waits = []\<rparr> =
        (Return429, \<lparr>attempts = 3, waits = [2000, 2000]\<rparr>)"
    by (intro retry_loop_always_failing) simp
  show "ask_handler generateContent (JString q) =
        (\<lparr>status = 429,
          body = ErrorJson ''AI service rate limit exceeded. Please try again later.''\<rparr>,
         \<lparr>attempts = 3, waits = [2000, 2000]\<rparr>)"
    using assms by (simp add: ask_handler_valid loop)
qed

theorem retrying_invoker_witness:
  "ask_handler
     (\<lambda>p k. if k < 2 then Throws (Some ''[429 Too Many Requests] Resource exhausted'')
             else Text ''hello'')
     (JString ''Who are you?'') =
     (\<lparr>status = 200, body = ResponseJson (Some ''hello'')\<rparr>,
      \<lparr>attempts = 3, waits = [2000, 2000]\<rparr>) \<and>
   ask_handler (\<lambda>p k. Throws (Some ''You exceeded your current quota''))
     (JString ''Who are you?'') =
     (\<lparr>status = 429,
       body = ErrorJson ''AI service rate limit exceeded. Please try again later.''\<rparr>,
      \<lparr>attempts = 3, waits = [2000, 2000]\<rparr>)"
proof -
  have q: "''Who are you?'' \<noteq> []" "length ''Who are you?'' \<le> 1000"
    by simp_all
  have "ask_handler
     (\<lambda>p k. if k < 2 then Throws (Some ''[429 Too Many Requests] Resource exhausted'')
             else Text ''hello'')
     (JString ''Who are you?'') =
     (\<lparr>status = 200, body = ResponseJson (Some ''hello'')\<rparr>,
      \<lparr>attempts = 3, waits = [2000, 2000]\<rparr>)"
    using retrying_invoker[OF q,
        where generateContent =
          "\<lambda>p k. if k < 2 then Throws (Some ''[429 Too Many Requests] Resource exhausted'')
                  else Text ''hello''"
        and ?m1.0 = "Some ''[429 Too Many Requests] Resource exhausted''"
        and ?m2.0 = "Some ''[429 Too Many Requests] Resource exhausted''"
        and r = "''hello''"]
    by (simp add: retryable_def)
  moreover have "ask_handler (\<lambda>p k. Throws (Some ''You exceeded your current quota''))
     (JString ''Who are you?'') =
     (\<lparr>status = 429,
       body = ErrorJson ''AI service rate limit exceeded. Please try again later.''\<rparr>,
      \<lparr>attempts = 3, waits = [2000, 2000]\<rparr>)"
    using retrying_invoker[OF q,
        where generateContent = "\<lambda>p k. Throws (Some ''You exceeded your current quota'')"]
    by (simp add: retryable_def)
  ultimately show ?thesis by blast
qed

subsection \<open>Rate limiting comes before validation, after body parsing\<close>

text \<open>
  Claim C9, as stated: every request from a caller with budget left costs that caller one
  unit, and a missing, non-string or too-long question is answered with HTTP 400. It
  fails for a request whose body the JSON parser refuses: a question of 200000 code
  units makes a body over the parser's limit, and a body that is not JSON is refused as
  well; both are answered with HTTP 500 by the error handling middleware, the rate limiter
  is never reached and the caller gets no record.
\<close>

theorem refused_body_consumes_nothing:
  "post_api_ask (\<lambda>p k. Text ''unused'') 1000 ''203.0.113.7''
     \<lparr>bodyQuestion = Some (JString (replicate 200000 CHR ''a'')), bodyExtra = 15\<rparr>
     Map.empty =
     (Map.empty, \<lparr>status = 500, body = ErrorJson ''Internal server error''\<rparr>,
      \<lparr>attempts = 0, waits = []\<rparr>) \<and>
   post_api_ask (\<lambda>p k. Text ''unused'') 1000 ''203.0.113.7''
     \<lparr>bodyQuestion = None, bodyExtra = 1\<rparr>
     [''203.0.113.7'' \<mapsto> \<lparr>count = 3, resetTime = 60000\<rparr>] =
     ([''203.0.113.7'' \<mapsto> \<lparr>count = 3, resetTime = 60000\<rparr>],
      \<lparr>status = 500, body = ErrorJson ''Internal server error''\<rparr>,
      \<lparr>attempts = 0, waits = []\<rparr>)"
  by (simp add: post_api_ask_def express_json_def body_bytes_def json_limit_def
        error_handling_middleware_def)

text \<open>
  Claim C9, amended: a request whose body the JSON parser accepts, sent by a caller with
  no record, an expired window or a count below 10, costs the caller one unit (the record
  is created or replaced with count 1, or its count is incremented) even when its question
  is missing, not a string or longer than 1000 code units and the answer is HTTP 400,
  without any upstream call. A request whose body the parser refuses is answered with
  HTTP 500 and leaves the store as it was.
\<close>

theorem parsed_request_consumes_budget:
  fixes store :: "'k rateLimitStore"
  shows
  "(express_json req = Some q \<and>
    (\<not> truthy q \<or> \<not> typeof_string q \<or> (\<exists>s. q = JString s \<and> length s > 1000)) \<and>
    (store c = None \<or> (\<exists>d. store c = Some d \<and> (now > resetTime d \<or> count d < 10))) \<longrightarrow>
      fst (post_api_ask generateContent now c req store) =
        store(c \<mapsto>
          (case store c of
             None \<Rightarrow> \<lparr>count = 1, resetTime = now + 60000\<rparr>
           | Some d \<Rightarrow>
               if now > resetTime d then \<lparr>count = 1, resetTime = now + 60000\<rparr>
               else d\<lparr>count := count d + 1\<rparr>)) \<and>
      status (fst (snd (post_api_ask generateContent now c req store))) = 400 \<and>
      snd (snd (post_api_ask generateContent now c req store)) = \<lparr>attempts = 0, waits = []\<rparr>) \<and>
   (express_json req = None \<longrightarrow>
      post_api_ask generateContent now c req store =
        (store, \<lparr>status = 500, body = ErrorJson ''Internal server error''\<rparr>,
         \<lparr>attempts = 0, waits = []\<rparr>))"
proof (intro conjI impI)
  assume a: "express_json req = Some q \<and>
    (\<not> truthy q \<or> \<not> typeof_string q \<or> (\<exists>s. q = JString s \<and> length s > 1000)) \<and>
    (store c = None \<or> (\<exists>d. store c = Some d \<and> (now > resetTime d \<or> count d < 10)))"
  let ?store' = "store(c \<mapsto>
             (case store c of
                None \<Rightarrow> \<lparr>count = 1, resetTime = now + 60000\<rparr>
              | Some d \<Rightarrow>
                  if now > resetTime d then \<lparr>count = 1, resetTime = now + 60000\<rparr>
                  else d\<lparr>count := count d + 1\<rparr>))"
  from a have parsed: "express_json req = Some q"
    and bad: "\<not> truthy q \<or> \<not> typeof_string q \<or> (\<exists>s. q = JString s \<and> length s > 1000)"
    and budget: "store c = None \<or> (\<exists>d. store c = Some d \<and> (now > resetTime d \<or> count d < 10))"
    by blast+
  have "rateLimit now c store = (?store', Next)"
    using budget
    by (auto simp: rateLimit_fresh rateLimit_expired rateLimit_increment)
  with parsed have run: "post_api_ask generateContent now c req store =
               (?store', ask_handler generateContent q)"
    by (rule post_api_ask_admitted)
  from run show "fst (post_api_ask generateContent now c req store) = ?store'"
    by simp
  from run ask_handler_invalid[OF bad, of generateContent]
  show "status (fst (snd (post_api_ask generateContent now c req store))) = 400"
    by simp
  from run ask_handler_invalid[OF bad, of generateContent]
  show "snd (snd (post_api_ask generateContent now c req store)) = \<lparr>attempts = 0, waits = []\<rparr>"
    by simp
next
  assume "express_json req = None"
  then show "post_api_ask generateContent now c req store =
        (store, \<lparr>status = 500, body = ErrorJson ''Internal server error''\<rparr>,
         \<lparr>attempts = 0, waits = []\<rparr>)"
    by (rule post_api_ask_refused)
qed

theorem parsed_request_consumes_budget_witness:
  "fst (post_api_ask (\<lambda>p k. Text ''unused'') 1000 ''203.0.113.7''
          \<lparr>bodyQuestion = Some (JString []), bodyExtra = 15\<rparr>
          [''203.0.113.7'' \<mapsto> \<lparr>count = 9, resetTime = 60000\<rparr>]) =
     [''203.0.113.7'' \<mapsto> \<lparr>count = 10, resetTime = 60000\<rparr>] \<and>
   status (fst (snd (post_api_ask (\<lambda>p k. Text ''unused'') 1000 ''203.0.113.7''
          \<lparr>bodyQuestion = Some (JString []), bodyExtra = 15\<rparr>
          [''203.0.113.7'' \<mapsto> \<lparr>count = 9, resetTime = 60000\<rparr>]))) = 400 \<and>
   fst (post_api_ask (\<lambda>p k. Text ''unused'') 1000 ''203.0.113.7''
          \<lparr>bodyQuestion = Some JUndefined, bodyExtra = 2\<rparr> Map.empty) =
     [''203.0.113.7'' \<mapsto> \<lparr>count = 1, resetTime = 61000\<rparr>] \<and>
   fst (post_api_ask (\<lambda>p k. Text ''unused'') 70000 ''203.0.113.7''
          \<lparr>bodyQuestion = Some (JString (replicate 1001 CHR ''a'')), bodyExtra = 15\<rparr>
          [''203.0.113.7'' \<mapsto> \<lparr>count = 10, resetTime = 60000\<rparr>]) =
     [''203.0.113.7'' \<mapsto> \<lparr>count = 1, resetTime = 130000\<rparr>] \<and>
   status (fst (snd (post_api_ask (\<lambda>p k. Text ''unused'') 70000 ''203.0.113.7''
          \<lparr>bodyQuestion = Some (JString (replicate 1001 CHR ''a'')), bodyExtra = 15\<rparr>
          [''203.0.113.7'' \<mapsto> \<lparr>count = 10, resetTime = 60000\<rparr>]))) = 400 \<and>
   post_api_ask (\<lambda>p k. Text ''unused'') 1000 ''203.0.113.7''
     \<lparr>bodyQuestion = None, bodyExtra = 1\<rparr> Map.empty =
     (Map.empty, \<lparr>status = 500, body = ErrorJson ''Internal server error''\<rparr>,
      \<lparr>attempts = 0, waits = []\<rparr>)"
proof -
  let ?ip = "''203.0.113.7''"
  let ?gen = "\<lambda>(p::string) (k::nat). Text ''unused''"
  let ?nine = "[?ip \<mapsto> \<lparr>count = 9, resetTime = 60000\<rparr>]"
  let ?full = "[?ip \<mapsto> \<lparr>count = 10, resetTime = 60000\<rparr>]"
  let ?empty = "\<lparr>bodyQuestion = Some (JString []), bodyExtra = 15\<rparr>"
  let ?missing = "\<lparr>bodyQuestion = Some JUndefined, bodyExtra = 2\<rparr>"
  let ?long = "\<lparr>bodyQuestion = Some (JString (replicate 1001 CHR ''a'')), bodyExtra = 15\<rparr>"
  let ?broken = "\<lparr>bodyQuestion = None, bodyExtra = 1\<rparr>"
  have "fst (post_api_ask ?gen 1000 ?ip ?empty ?nine) = ?full \<and>
        status (fst (snd (post_api_ask ?gen 1000 ?ip ?empty ?nine))) = 400"
    using parsed_request_consumes_budget[where req = ?empty and q = "JString []"
        and store = ?nine and c = ?ip and now = 1000 and generateContent = ?gen,
        THEN conjunct1]
    by (simp add: express_json_def body_bytes_def json_limit_def)
  moreover have "fst (post_api_ask ?gen 1000 ?ip ?missing Map.empty) =
     [?ip \<mapsto> \<lparr>count = 1, resetTime = 61000\<rparr>]"
    using parsed_request_consumes_budget[where req = ?missing and q = JUndefined
        and store = "Map.empty :: string rateLimitStore"
        and c = ?ip and now = 1000 and generateContent = ?gen, THEN conjunct1]
    by (simp add: express_json_def body_bytes_def json_limit_def)
  moreover have "fst (post_api_ask ?gen 70000 ?ip ?long ?full) =
       [?ip \<mapsto> \<lparr>count = 1, resetTime = 130000\<rparr>] \<and>
     status (fst (snd (post_api_ask ?gen 70000 ?ip ?long ?full))) = 400"
    using parsed_request_consumes_budget[where req = ?long
        and q = "JString (replicate 1001 CHR ''a'')"
        and store = ?full and c = ?ip and now = 70000 and generateContent = ?gen,
        THEN conjunct1]
    by (simp add: express_json_def body_bytes_def json_limit_def)
  moreover have "post_api_ask ?gen 1000 ?ip ?broken Map.empty =
     (Map.empty, \<lparr>status = 500, body = ErrorJson ''Internal server error''\<rparr>,
      \<lparr>attempts = 0, waits = []\<rparr>)"
    using parsed_request_consumes_budget[where req = ?broken
        and store = "Map.empty :: string rateLimitStore"
        and c = ?ip and now = 1000 and generateContent = ?gen, THEN conjunct2]
    by (simp add: express_json_def body_bytes_def json_limit_def)
  ultimately show ?thesis by blast
qed

subsection \<open>Which failures are retried\<close>

text \<open>
  Claim C10. An upstream failure counts as retryable exactly when its message contains
  \<^verbatim>\<open>429\<close> or \<^verbatim>\<open>quota\<close>. Any other failure, also after earlier retryable ones, ends the
  request at once with HTTP 500: no further upstream call and no further wait.
\<close>

theorem retry_classification:
  "retryable (Some msg) =
     Some ((\<exists>ps ss. msg = ps @ ''429'' @ ss) \<or> (\<exists>ps ss. msg = ps @ ''quota'' @ ss)) \<and>
   (q \<noteq> [] \<and> length q \<le> 1000 \<and> j < 3 \<and>
    (\<forall>k < j. \<exists>m'. generateContent (prompt q) k = Throws m' \<and> retryable m' = Some True) \<and>
    generateContent (prompt q) j = Throws m \<and> retryable m \<noteq> Some True \<longrightarrow>
      ask_handler generateContent (JString q) =
        (\<lparr>status = 500, body = ErrorJson ''Failed to generate response. Please try again.''\<rparr>,
         \<lparr>attempts = j + 1, waits = replicate j 2000\<rparr>))"
proof (intro conjI impI)
  show "retryable (Some msg) =
     Some ((\<exists>ps ss. msg = ps @ ''429'' @ ss) \<or> (\<exists>ps ss. msg = ps @ ''quota'' @ ss))"
    by (simp only: retryable_def option.case includes_str_iff)
next
  assume a: "q \<noteq> [] \<and> length q \<le> 1000 \<and> j < 3 \<and>
    (\<forall>k < j. \<exists>m'. generateContent (prompt q) k = Throws m' \<and> retryable m' = Some True) \<and>
    generateContent (prompt q) j = Throws m \<and> retryable m \<noteq> Some True"
  let ?gen = "generateContent (prompt q)"
  let ?tr0 = "\<lparr>attempts = 0, waits = []\<rparr>"
  let ?trj = "?tr0\<lparr>attempts := attempts ?tr0 + j, waits := waits ?tr0 @ replicate j 2000\<rparr>"
  have "retry_loop ?gen 3 ?tr0 = retry_loop ?gen (3 - j) ?trj"
    using a by (intro retry_loop_prefix) auto
  also have "\<dots> = (Rethrow, ?trj\<lparr>attempts := attempts ?trj + 1\<rparr>)"
    using a by (intro retry_loop_rethrow[where m = m]) auto
  finally have "retry_loop ?gen 3 ?tr0 = (Rethrow, \<lparr>attempts = j + 1, waits = replicate j 2000\<rparr>)"
    by simp
  with a show "ask_handler generateContent (JString q) =
        (\<lparr>status = 500, body = ErrorJson ''Failed to generate response. Please try again.''\<rparr>,
         \<lparr>attempts = j + 1, waits = replicate j 2000\<rparr>)"
    by (simp add: ask_handler_valid)
qed

theorem retry_classification_witness:
  "ask_handler (\<lambda>p k. Throws (Some ''fetch failed'')) (JString ''Who are you?'') =
     (\<lparr>status = 500, body = ErrorJson ''Failed to generate response. Please try again.''\<rparr>,
      \<lparr>attempts = 1, waits = []\<rparr>) \<and>
   ask_handler (\<lambda>p k. if k = 0 then Throws (Some ''quota'') else Throws None)
     (JString ''Who are you?'') =
     (\<lparr>status = 500, body = ErrorJson ''Failed to generate response. Please try again.''\<rparr>,
      \<lparr>attempts = 2, waits = [2000]\<rparr>)"
proof -
  have "ask_handler (\<lambda>p k. Throws (Some ''fetch failed'')) (JString ''Who are you?'') =
     (\<lparr>status = 500, body = ErrorJson ''Failed to generate response. Please try again.''\<rparr>,
      \<lparr>attempts = 1, waits = []\<rparr>)"
    using retry_classification[where q = "''Who are you?''" and j = 0
        and generateContent = "\<lambda>p k. Throws (Some ''fetch failed'')"
        and m = "Some ''fetch failed''", THEN conjunct2]
    by (simp add: retryable_def)
  moreover have "ask_handler (\<lambda>p k. if k = 0 then Throws (Some ''quota'') else Throws None)
     (JString ''Who are you?'') =
     (\<lparr>status = 500, body = ErrorJson ''Failed to generate response. Please try again.''\<rparr>,
      \<lparr>attempts = 2, waits = [2000]\<rparr>)"
    using retry_classification[where q = "''Who are you?''" and j = 1
        and generateContent = "\<lambda>p k. if k = 0 then Throws (Some ''quota'') else Throws None"
        and m = None, THEN conjunct2]
    by (simp add: retryable_def)
  ultimately show ?thesis by blast
qed

section \<open>Properties of the client\<close>

subsection \<open>Auxiliary facts\<close>

lemmas handler_defs =
  startListening_def stopListening_def stopSpeaking_def clearConversation_def
  recognition_onstart_def recognition_onresult_def recognition_onresult_resume_def
  recognition_onerror_def recognition_onend_def speakText_def
  utterance_onstart_def utterance_onend_def utterance_onerror_def

lemma step_synthRef [simp]: "synthRef (step e s) = synthRef s"
  by (cases e) (auto simp: handler_defs split: sum.splits)

lemma step_recognitionRef [simp]: "recognitionRef (step e s) = recognitionRef s"
  by (cases e) (auto simp: handler_defs split: sum.splits)

lemma run_synthRef [simp]: "synthRef (run es s) = synthRef s"
  by (induction es arbitrary: s) simp_all

lemma run_recognitionRef [simp]: "recognitionRef (run es s) = recognitionRef s"
  by (induction es arbitrary: s) simp_all


lemma mount_supported [simp]:
  "synthRef (mount True True)" "recognitionRef (mount True True)"
  "\<not> isListening (mount a b)" "\<not> isProcessing (mount a b)" "\<not> isSpeaking (mount a b)"
  by (simp_all add: mount_def Let_def)

text \<open>\<^verbatim>\<open>startListening\<close> calls \<^verbatim>\<open>start()\<close> exactly when its guard lets it through.\<close>

lemma emitted_StartListening:
  "emitted StartListening s =
     (if \<not> recognitionRef s \<or> isListening s \<or> isProcessing s then [] else [RecognitionStart])"
  by (simp add: emitted_def startListening_def)

lemma rec_inv_step:
  "rec_inv s ph \<Longrightarrow> rec_next e s ph = Some ph' \<Longrightarrow> rec_inv (step e s) ph'"
  by (cases e)
     (auto simp: rec_inv_def rec_next_def emitted_def handler_defs
           split: if_splits sum.splits)

lemma rec_inv_run:
  "rec_inv s ph \<Longrightarrow> session_ok es s ph \<Longrightarrow> \<exists>ph'. rec_inv (run es s) ph'"
proof (induction es arbitrary: s ph)
  case Nil
  then show ?case by auto
next
  case (Cons e es)
  from Cons.prems(2) obtain ph' where ph': "rec_next e s ph = Some ph'"
    and rest: "session_ok es (step e s) ph'"
    by (auto split: option.splits)
  from rec_inv_step[OF Cons.prems(1) ph'] rest show ?case
    by (auto dest: Cons.IH)
qed

lemma rec_inv_mount: "rec_inv (mount a b) RecIdle"
  by (simp add: rec_inv_def)

lemma no_listening_while_processing:
  "session_ok es (mount a b) RecIdle \<Longrightarrow>
   \<not> (isListening (run es (mount a b)) \<and> isProcessing (run es (mount a b)))"
  using rec_inv_run[OF rec_inv_mount, of es a b] by (auto simp: rec_inv_def)

lemma Speaking_after_exchange:
  "run [StartListening, RecOnStart, RecOnResult ''hi'', RecOnEnd,
        FetchSettled (HttpResponse 200 (Some (Some ''hello''))), UttOnStart]
     (mount True True) =
   \<lparr>isListening = False, isProcessing = False, isSpeaking = True,
    conversation = [\<lparr>type = UserMsg, text = Some ''hi''\<rparr>,
                    \<lparr>type = BotMsg, text = Some ''hello''\<rparr>],
    currentTranscript = ''hi'', error = [], isSupported = True,
    recognitionRef = True, synthRef = True,
    commands = [RecognitionStart, Fetch (ask_request ''hi''), SynthCancel,
                SynthSpeak (Some ''hello'')]\<rparr>"
  by (simp add: handler_defs mount_def callGeminiAPI_settle_def ok_def rec_next_def emitted_def)

lemma barge_in:
  "session_ok
     ([StartListening, RecOnStart, RecOnResult ''hi'', RecOnEnd,
       FetchSettled (HttpResponse 200 (Some (Some ''hello''))), UttOnStart] @
      [StartListening, RecOnStart])
     (mount True True) RecIdle \<and>
   run ([StartListening, RecOnStart, RecOnResult ''hi'', RecOnEnd,
         FetchSettled (HttpResponse 200 (Some (Some ''hello''))), UttOnStart] @
        [StartListening, RecOnStart])
     (mount True True) =
   \<lparr>isListening = True, isProcessing = False, isSpeaking = True,
    conversation = [\<lparr>type = UserMsg, text = Some ''hi''\<rparr>,
                    \<lparr>type = BotMsg, text = Some ''hello''\<rparr>],
    currentTranscript = [], error = [], isSupported = True,
    recognitionRef = True, synthRef = True,
    commands = [RecognitionStart, Fetch (ask_request ''hi''), SynthCancel,
                SynthSpeak (Some ''hello''), RecognitionStart]\<rparr>"
  by (simp add: handler_defs mount_def callGeminiAPI_settle_def ok_def rec_next_def emitted_def)

lemma Speaking_with_error:
  "run ([StartListening, RecOnStart, RecOnResult ''hi'', RecOnEnd,
         FetchSettled (HttpResponse 200 (Some (Some ''hello''))), UttOnStart] @
        [StartListening, RecOnStart, RecOnError ''no-speech'', RecOnEnd])
     (mount True True) =
   \<lparr>isListening = False, isProcessing = False, isSpeaking = True,
    conversation = [\<lparr>type = UserMsg, text = Some ''hi''\<rparr>,
                    \<lparr>type = BotMsg, text = Some ''hello''\<rparr>],
    currentTranscript = [], error = ''No speech detected. Please try speaking again.'',
    isSupported = True, recognitionRef = True, synthRef = True,
    commands = [RecognitionStart, Fetch (ask_request ''hi''), SynthCancel,
                SynthSpeak (Some ''hello''), RecognitionStart]\<rparr>"
  by (simp add: handler_defs mount_def callGeminiAPI_settle_def ok_def errorMessage_def)

lemma post_api_ask_invalid_status:
  "bodyQuestion req = Some q \<Longrightarrow>
   \<not> truthy q \<or> \<not> typeof_string q \<or> (\<exists>s. q = JString s \<and> length s > 1000) \<Longrightarrow>
   status (fst (snd (post_api_ask generateContent now c req store))) \<in> {400, 429, 500}"
  using ask_handler_invalid[of q generateContent]
  by (auto simp: post_api_ask_def express_json_def error_handling_middleware_def rateLimit_def
           split: option.splits prod.splits middleware_result.splits)

lemma Processing_after_result:
  "run [StartListening, RecOnStart, RecOnResult ''hi''] (mount True True) =
   \<lparr>isListening = False, isProcessing = True, isSpeaking = False,
    conversation = [\<lparr>type = UserMsg, text = Some ''hi''\<rparr>],
    currentTranscript = ''hi'', error = [], isSupported = True,
    recognitionRef = True, synthRef = True,
    commands = [RecognitionStart, Fetch (ask_request ''hi'')]\<rparr>"
  by (simp add: handler_defs mount_def)

lemma Listening_second_round:
  "run ([StartListening, RecOnStart, RecOnResult ''hi'', RecOnEnd,
         FetchSettled (HttpResponse 200 (Some (Some ''hello''))), UttOnStart] @
        [UttOnEnd, StartListening, RecOnStart])
     (mount True True) =
   \<lparr>isListening = True, isProcessing = False, isSpeaking = False,
    conversation = [\<lparr>type = UserMsg, text = Some ''hi''\<rparr>,
                    \<lparr>type = BotMsg, text = Some ''hello''\<rparr>],
    currentTranscript = [], error = [], isSupported = True,
    recognitionRef = True, synthRef = True,
    commands = [RecognitionStart, Fetch (ask_request ''hi''), SynthCancel,
                SynthSpeak (Some ''hello''), RecognitionStart]\<rparr>"
  by (simp add: handler_defs mount_def callGeminiAPI_settle_def ok_def rec_next_def emitted_def)




lemma step_not_speaking:
  "e \<noteq> UttOnStart \<Longrightarrow> \<not> isSpeaking s \<Longrightarrow> \<not> isSpeaking (step e s)"
  by (cases e) (auto simp: handler_defs split: sum.splits)

lemma run_not_speaking:
  "UttOnStart \<notin> set es \<Longrightarrow> \<not> isSpeaking s \<Longrightarrow> \<not> isSpeaking (run es s)"
  by (induction es arbitrary: s) (auto simp: step_not_speaking simp del: step.simps)

lemma run_completions:
  "set es \<subseteq> {UttOnEnd, UttOnError} \<Longrightarrow> \<not> isSpeaking s \<Longrightarrow> run es s = s"
proof (induction es arbitrary: s)
  case Nil
  then show ?case by simp
next
  case (Cons e es)
  then have "step e s = s"
    by (cases s) (auto simp: handler_defs)
  with Cons show ?case by simp
qed

subsection \<open>The three activity flags\<close>

text \<open>
  Claim C1, as stated: after every sequence of operations and callbacks the component is
  in exactly one of Idle, Listening, Processing, Speaking. It fails: the microphone button
  stays enabled while the answer is spoken and \<^verbatim>\<open>startListening\<close> does not test
  \<^verbatim>\<open>isSpeaking\<close>, so after one exchange a click and the start event of the new session
  leave \<^verbatim>\<open>isListening\<close> and \<^verbatim>\<open>isSpeaking\<close> both true.
\<close>

theorem listening_while_speaking:
  "session_ok
     ([StartListening, RecOnStart, RecOnResult ''hi'', RecOnEnd,
       FetchSettled (HttpResponse 200 (Some (Some ''hello''))), UttOnStart] @
      [StartListening, RecOnStart])
     (mount True True) RecIdle \<and>
   Speaking
     (run [StartListening, RecOnStart, RecOnResult ''hi'', RecOnEnd,
           FetchSettled (HttpResponse 200 (Some (Some ''hello''))), UttOnStart]
        (mount True True)) \<and>
   offered StartListening
     (run [StartListening, RecOnStart, RecOnResult ''hi'', RecOnEnd,
           FetchSettled (HttpResponse 200 (Some (Some ''hello''))), UttOnStart]
        (mount True True)) \<and>
   isListening
     (run ([StartListening, RecOnStart, RecOnResult ''hi'', RecOnEnd,
            FetchSettled (HttpResponse 200 (Some (Some ''hello''))), UttOnStart] @
           [StartListening, RecOnStart])
        (mount True True)) \<and>
   isSpeaking
     (run ([StartListening, RecOnStart, RecOnResult ''hi'', RecOnEnd,
            FetchSettled (HttpResponse 200 (Some (Some ''hello''))), UttOnStart] @
           [StartListening, RecOnStart])
        (mount True True)) \<and>
   \<not> (Idle
        (run ([StartListening, RecOnStart, RecOnResult ''hi'', RecOnEnd,
               FetchSettled (HttpResponse 200 (Some (Some ''hello''))), UttOnStart] @
              [StartListening, RecOnStart])
           (mount True True)) \<or>
      Listening
        (run ([StartListening, RecOnStart, RecOnResult ''hi'', RecOnEnd,
               FetchSettled (HttpResponse 200 (Some (Some ''hello''))), UttOnStart] @
              [StartListening, RecOnStart])
           (mount True True)) \<or>
      Processing
        (run ([StartListening, RecOnStart, RecOnResult ''hi'', RecOnEnd,
               FetchSettled (HttpResponse 200 (Some (Some ''hello''))), UttOnStart] @
              [StartListening, RecOnStart])
           (mount True True)) \<or>
      Speaking
        (run ([StartListening, RecOnStart, RecOnResult ''hi'', RecOnEnd,
               FetchSettled (HttpResponse 200 (Some (Some ''hello''))), UttOnStart] @
              [StartListening, RecOnStart])
           (mount True True)))"
  by (simp only: barge_in Speaking_after_exchange)
     (simp add: Idle_def Listening_def Processing_def Speaking_def)

text \<open>
  Claim C1, amended: for every sequence of operations and callbacks in which the
  recognition session delivers its start event only for a \<^verbatim>\<open>start()\<close> call the component
  has made, and results, errors and the end event only inside a session, Listening and
  Processing are never true together: the guard of \<^verbatim>\<open>startListening\<close> makes no such call
  while processing. Speaking is a flag of its own and can be true together with Listening.
\<close>

theorem listening_excludes_processing:
  "(session_ok es (mount a b) RecIdle \<longrightarrow>
      \<not> (isListening (run es (mount a b)) \<and> isProcessing (run es (mount a b)))) \<and>
   (\<exists>es'. session_ok es' (mount True True) RecIdle \<and>
      isListening (run es' (mount True True)) \<and> isSpeaking (run es' (mount True True)))"
proof (intro conjI impI)
  assume "session_ok es (mount a b) RecIdle"
  then show "\<not> (isListening (run es (mount a b)) \<and> isProcessing (run es (mount a b)))"
    by (rule no_listening_while_processing)
next
  show "\<exists>es'. session_ok es' (mount True True) RecIdle \<and>
      isListening (run es' (mount True True)) \<and> isSpeaking (run es' (mount True True))"
  proof (intro exI conjI)
    show "session_ok
       ([StartListening, RecOnStart, RecOnResult ''hi'', RecOnEnd,
         FetchSettled (HttpResponse 200 (Some (Some ''hello''))), UttOnStart] @
        [StartListening, RecOnStart])
       (mount True True) RecIdle"
      using barge_in by (rule conjunct1)
    show "isListening
       (run ([StartListening, RecOnStart, RecOnResult ''hi'', RecOnEnd,
              FetchSettled (HttpResponse 200 (Some (Some ''hello''))), UttOnStart] @
             [StartListening, RecOnStart])
          (mount True True))"
      by (subst barge_in[THEN conjunct2]) simp
    show "isSpeaking
       (run ([StartListening, RecOnStart, RecOnResult ''hi'', RecOnEnd,
              FetchSettled (HttpResponse 200 (Some (Some ''hello''))), UttOnStart] @
             [StartListening, RecOnStart])
          (mount True True))"
      by (subst barge_in[THEN conjunct2]) simp
  qed
qed

theorem listening_excludes_processing_witness:
  "session_ok [StartListening, RecOnStart, RecOnResult ''hi''] (mount True True) RecIdle \<and>
   isProcessing (run [StartListening, RecOnStart, RecOnResult ''hi''] (mount True True)) \<and>
   \<not> isListening (run [StartListening, RecOnStart, RecOnResult ''hi''] (mount True True))"
proof -
  have ok: "session_ok [StartListening, RecOnStart, RecOnResult ''hi''] (mount True True) RecIdle"
    by (simp add: handler_defs mount_def rec_next_def emitted_def)
  have p: "isProcessing (run [StartListening, RecOnStart, RecOnResult ''hi''] (mount True True))"
    by (simp add: handler_defs mount_def)
  from listening_excludes_processing[of "[StartListening, RecOnStart, RecOnResult ''hi'']" True True,
        THEN conjunct1, THEN mp, OF ok] p
  have "\<not> isListening (run [StartListening, RecOnStart, RecOnResult ''hi''] (mount True True))"
    by blast
  with ok p show ?thesis by blast
qed

subsection \<open>Operations outside their source state\<close>

text \<open>
  Claim C2, as stated: every operation invoked outside its source state changes neither
  the session state nor the transcript. It fails: \<^verbatim>\<open>startListening\<close> while only Speaking
  clears the error; \<^verbatim>\<open>onresult\<close> and the continuation after the request carry no guard
  and, run in the Idle state, append a turn, enter Processing or set the error.
\<close>

theorem unguarded_operations:
  "Speaking
     (run ([StartListening, RecOnStart, RecOnResult ''hi'', RecOnEnd,
            FetchSettled (HttpResponse 200 (Some (Some ''hello''))), UttOnStart] @
           [StartListening, RecOnStart, RecOnError ''no-speech'', RecOnEnd])
        (mount True True)) \<and>
   error
     (run ([StartListening, RecOnStart, RecOnResult ''hi'', RecOnEnd,
            FetchSettled (HttpResponse 200 (Some (Some ''hello''))), UttOnStart] @
           [StartListening, RecOnStart, RecOnError ''no-speech'', RecOnEnd])
        (mount True True)) = ''No speech detected. Please try speaking again.'' \<and>
   error
     (step StartListening
        (run ([StartListening, RecOnStart, RecOnResult ''hi'', RecOnEnd,
               FetchSettled (HttpResponse 200 (Some (Some ''hello''))), UttOnStart] @
              [StartListening, RecOnStart, RecOnError ''no-speech'', RecOnEnd])
           (mount True True))) = [] \<and>
   Idle (mount True True) \<and>
   conversation (mount True True) = [] \<and>
   error (mount True True) = [] \<and>
   Processing (step (RecOnResult ''hi'') (mount True True)) \<and>
   conversation (step (RecOnResult ''hi'') (mount True True)) =
     [\<lparr>type = UserMsg, text = Some ''hi''\<rparr>] \<and>
   conversation (step (FetchSettled (HttpResponse 200 (Some (Some ''hello'')))) (mount True True)) =
     [\<lparr>type = BotMsg, text = Some ''hello''\<rparr>] \<and>
   error (step (FetchSettled TransportFailure) (mount True True)) =
     ''Failed to get AI response. Please try again.''"
  by (simp only: Speaking_with_error)
     (simp add: handler_defs mount_def callGeminiAPI_settle_def ok_def
        Idle_def Processing_def Speaking_def)

text \<open>
  Claim C2, amended: \<^verbatim>\<open>startListening\<close> changes nothing at all while Listening or
  Processing (or without a recognition object); the end and error callbacks of an utterance
  change nothing when not Speaking, and \<^verbatim>\<open>stopSpeaking\<close> then only repeats the cancel
  call, leaving flags, error and transcript as they were.
\<close>

theorem invalid_source_noop:
  "(\<not> recognitionRef s \<or> isListening s \<or> isProcessing s \<longrightarrow> step StartListening s = s) \<and>
   (\<not> isSpeaking s \<longrightarrow>
      step UttOnEnd s = s \<and> step UttOnError s = s \<and>
      step StopSpeaking s =
        (if synthRef s then s\<lparr>commands := commands s @ [SynthCancel]\<rparr> else s))"
  by (cases s) (simp add: handler_defs)

theorem invalid_source_noop_witness:
  "step StartListening (step (RecOnResult ''hi'') (mount True True)) =
     step (RecOnResult ''hi'') (mount True True) \<and>
   step StartListening (step RecOnStart (mount True True)) = step RecOnStart (mount True True) \<and>
   step UttOnEnd (mount True True) = mount True True \<and>
   step UttOnError (mount True True) = mount True True \<and>
   step StopSpeaking (mount True True) = (mount True True)\<lparr>commands := [SynthCancel]\<rparr>"
proof -
  have "step StartListening (step (RecOnResult ''hi'') (mount True True)) =
     step (RecOnResult ''hi'') (mount True True)"
    using invalid_source_noop[of "step (RecOnResult ''hi'') (mount True True)", THEN conjunct1]
    by (simp add: recognition_onresult_def)
  moreover have "step StartListening (step RecOnStart (mount True True)) =
     step RecOnStart (mount True True)"
    using invalid_source_noop[of "step RecOnStart (mount True True)", THEN conjunct1]
    by (simp add: recognition_onstart_def)
  moreover have "step UttOnEnd (mount True True) = mount True True \<and>
     step UttOnError (mount True True) = mount True True \<and>
     step StopSpeaking (mount True True) = (mount True True)\<lparr>commands := [SynthCancel]\<rparr>"
    using invalid_source_noop[of "mount True True", THEN conjunct2]
    by (simp add: mount_def)
  ultimately show ?thesis by blast
qed

subsection \<open>The answer request client\<close>

text \<open>
  Claim C5, as stated: an empty or over-long question fails locally, without a network
  round trip. It fails: \<^verbatim>\<open>callGeminiAPI\<close> sends the empty question, and a question of
  1001 code units, like any other.
\<close>

theorem no_client_validation:
  "callGeminiAPI [] (\<lambda>req. HttpResponse 200 (Some (Some ''hello''))) =
     (Inr (Some ''hello''), [ask_request []]) \<and>
   snd (callGeminiAPI (replicate 1001 CHR ''a'') (\<lambda>req. HttpResponse 400 (Some None))) =
     [ask_request (replicate 1001 CHR ''a'')]"
  by (simp add: callGeminiAPI_def callGeminiAPI_settle_def ok_def)

text \<open>
  Claim C5, amended: \<^verbatim>\<open>callGeminiAPI\<close> does not validate. For every question it sends
  exactly one request carrying that question and never retries; an empty or over-long
  question is refused by the proxy, whatever the size of the body, which the client
  reports as the thrown error
  \<^verbatim>\<open>Failed to get AI response\<close>.
\<close>

theorem callGeminiAPI_single_request:
  "snd (callGeminiAPI q fetch) = [ask_request q] \<and>
   question (ask_request q) = q \<and>
   (q = [] \<or> length q > 1000 \<longrightarrow>
      fst (callGeminiAPI q (server_fetch generateContent now clientId store extra)) =
        Inl (Error ''Failed to get AI response''))"
proof (intro conjI impI)
  show "snd (callGeminiAPI q fetch) = [ask_request q]"
    by (simp add: callGeminiAPI_def)
  show "question (ask_request q) = q"
    by (simp add: ask_request_def)
next
  assume "q = [] \<or> length q > 1000"
  then have "\<not> truthy (JString q) \<or> \<not> typeof_string (JString q) \<or>
             (\<exists>s. JString q = JString s \<and> length s > 1000)"
    by auto
  from post_api_ask_invalid_status[OF _ this,
      of "\<lparr>bodyQuestion = Some (JString q), bodyExtra = extra\<rparr>"
         generateContent now clientId store]
  have "\<not> ok (status (fst (snd (post_api_ask generateContent now clientId
           \<lparr>bodyQuestion = Some (JString q), bodyExtra = extra\<rparr> store))))"
    by (auto simp: ok_def)
  then show "fst (callGeminiAPI q (server_fetch generateContent now clientId store extra)) =
        Inl (Error ''Failed to get AI response'')"
    by (cases "post_api_ask generateContent now clientId
                 \<lparr>bodyQuestion = Some (JString q), bodyExtra = extra\<rparr> store")
       (simp add: callGeminiAPI_def server_fetch_def callGeminiAPI_settle_def ask_request_def)
qed

theorem callGeminiAPI_single_request_witness:
  "callGeminiAPI [] (server_fetch (\<lambda>p k. Text ''unused'') 1000 ''203.0.113.7'' Map.empty 15) =
     (Inl (Error ''Failed to get AI response''), [ask_request []])"
proof -
  have "([]::string) = [] \<or> length ([]::string) > 1000" by simp
  with callGeminiAPI_single_request[of "[]"
      "server_fetch (\<lambda>p k. Text ''unused'') 1000 ''203.0.113.7'' Map.empty 15"
      "\<lambda>p k. Text ''unused''" 1000 "''203.0.113.7''" Map.empty 15]
  show ?thesis by (simp add: prod_eq_iff)
qed

subsection \<open>Clearing the conversation\<close>

text \<open>
  Claim C6, as stated: \<^verbatim>\<open>clearConversation\<close> forces the Idle state from every state. It
  fails: invoked while Processing or while Listening (the button is shown as soon as the
  conversation is not empty) it leaves the component Processing, respectively Listening.
\<close>

theorem clearConversation_keeps_activity:
  "Processing (run [StartListening, RecOnStart, RecOnResult ''hi''] (mount True True)) \<and>
   offered ClearConversation
     (run [StartListening, RecOnStart, RecOnResult ''hi''] (mount True True)) \<and>
   Processing
     (step ClearConversation
        (run [StartListening, RecOnStart, RecOnResult ''hi''] (mount True True))) \<and>
   \<not> Idle
     (step ClearConversation
        (run [StartListening, RecOnStart, RecOnResult ''hi''] (mount True True))) \<and>
   Listening
     (run ([StartListening, RecOnStart, RecOnResult ''hi'', RecOnEnd,
            FetchSettled (HttpResponse 200 (Some (Some ''hello''))), UttOnStart] @
           [UttOnEnd, StartListening, RecOnStart])
        (mount True True)) \<and>
   offered ClearConversation
     (run ([StartListening, RecOnStart, RecOnResult ''hi'', RecOnEnd,
            FetchSettled (HttpResponse 200 (Some (Some ''hello''))), UttOnStart] @
           [UttOnEnd, StartListening, RecOnStart])
        (mount True True)) \<and>
   Listening
     (step ClearConversation
        (run ([StartListening, RecOnStart, RecOnResult ''hi'', RecOnEnd,
               FetchSettled (HttpResponse 200 (Some (Some ''hello''))), UttOnStart] @
              [UttOnEnd, StartListening, RecOnStart])
           (mount True True))) \<and>
   \<not> Idle
     (step ClearConversation
        (run ([StartListening, RecOnStart, RecOnResult ''hi'', RecOnEnd,
               FetchSettled (HttpResponse 200 (Some (Some ''hello''))), UttOnStart] @
              [UttOnEnd, StartListening, RecOnStart])
           (mount True True)))"
  by (simp only: Processing_after_result Listening_second_round)
     (simp add: clearConversation_def stopSpeaking_def
        Idle_def Listening_def Processing_def)

text \<open>
  Claim C6, amended: from every state \<^verbatim>\<open>clearConversation\<close> empties the transcript, the
  current transcript and the error, and leaves \<^verbatim>\<open>isListening\<close> and \<^verbatim>\<open>isProcessing\<close>
  as they were; with a synthesis object it cancels speech and clears \<^verbatim>\<open>isSpeaking\<close>, so
  that the result is Idle exactly when the component was neither listening nor processing.
\<close>

theorem clearConversation_effect:
  "conversation (step ClearConversation s) = [] \<and>
   currentTranscript (step ClearConversation s) = [] \<and>
   error (step ClearConversation s) = [] \<and>
   isListening (step ClearConversation s) = isListening s \<and>
   isProcessing (step ClearConversation s) = isProcessing s \<and>
   (synthRef s \<longrightarrow>
      \<not> isSpeaking (step ClearConversation s) \<and>
      commands (step ClearConversation s) = commands s @ [SynthCancel] \<and>
      (Idle (step ClearConversation s) \<longleftrightarrow> \<not> isListening s \<and> \<not> isProcessing s))"
  by (simp add: clearConversation_def stopSpeaking_def Idle_def)

theorem clearConversation_effect_witness:
  "step ClearConversation
     (run [StartListening, RecOnStart, RecOnResult ''hi'', RecOnEnd,
           FetchSettled (HttpResponse 200 (Some (Some ''hello''))), UttOnStart]
        (mount True True)) =
   \<lparr>isListening = False, isProcessing = False, isSpeaking = False,
    conversation = [], currentTranscript = [], error = [], isSupported = True,
    recognitionRef = True, synthRef = True,
    commands = [RecognitionStart, Fetch (ask_request ''hi''), SynthCancel,
                SynthSpeak (Some ''hello''), SynthCancel]\<rparr> \<and>
   Idle
     (step ClearConversation
        (run [StartListening, RecOnStart, RecOnResult ''hi'', RecOnEnd,
              FetchSettled (HttpResponse 200 (Some (Some ''hello''))), UttOnStart]
           (mount True True)))"
proof -
  let ?s = "run [StartListening, RecOnStart, RecOnResult ''hi'', RecOnEnd,
                 FetchSettled (HttpResponse 200 (Some (Some ''hello''))), UttOnStart]
              (mount True True)"
  have sy: "synthRef ?s" by (simp only: run_synthRef mount_supported)
  have "Idle (step ClearConversation ?s)"
    using clearConversation_effect[of ?s] sy
    by (simp add: Speaking_after_exchange del: run.simps step.simps)
  moreover have "step ClearConversation ?s =
     \<lparr>isListening = False, isProcessing = False, isSpeaking = False,
      conversation = [], currentTranscript = [], error = [], isSupported = True,
      recognitionRef = True, synthRef = True,
      commands = [RecognitionStart, Fetch (ask_request ''hi''), SynthCancel,
                  SynthSpeak (Some ''hello''), SynthCancel]\<rparr>"
    by (simp only: Speaking_after_exchange) (simp add: clearConversation_def stopSpeaking_def)
  ultimately show ?thesis by blast
qed

subsection \<open>A failed answer request\<close>



subsection \<open>Stopping speech\<close>

text \<open>
  Claim C8. \<^verbatim>\<open>stopSpeaking\<close> in the Speaking state cancels synthesis and leaves the
  component Idle at once; end and error events of utterances arriving afterwards change
  nothing, and no event other than the start of a new utterance sets \<^verbatim>\<open>isSpeaking\<close>
  again.
\<close>

theorem stopSpeaking_final:
  assumes "Speaking (run pre (mount True True))"
  shows
  "Idle (step StopSpeaking (run pre (mount True True))) \<and>
   commands (step StopSpeaking (run pre (mount True True))) =
     commands (run pre (mount True True)) @ [SynthCancel] \<and>
   (set es \<subseteq> {UttOnEnd, UttOnError} \<longrightarrow>
      run es (step StopSpeaking (run pre (mount True True))) =
        step StopSpeaking (run pre (mount True True))) \<and>
   (UttOnStart \<notin> set es \<longrightarrow>
      \<not> isSpeaking (run es (step StopSpeaking (run pre (mount True True)))))"
proof -
  let ?s = "run pre (mount True True)"
  have sy: "synthRef ?s" by (simp only: run_synthRef mount_supported)
  have stop: "step StopSpeaking ?s = ?s\<lparr>commands := commands ?s @ [SynthCancel], isSpeaking := False\<rparr>"
    using sy by (simp add: stopSpeaking_def)
  have ns: "\<not> isSpeaking (step StopSpeaking ?s)"
    by (subst stop) simp
  have "Idle (step StopSpeaking ?s)"
    using assms by (subst stop) (simp add: Idle_def Speaking_def)
  moreover have "commands (step StopSpeaking ?s) = commands ?s @ [SynthCancel]"
    by (subst stop) simp
  moreover have "set es \<subseteq> {UttOnEnd, UttOnError} \<longrightarrow>
      run es (step StopSpeaking ?s) = step StopSpeaking ?s"
    using run_completions[OF _ ns] by blast
  moreover have "UttOnStart \<notin> set es \<longrightarrow> \<not> isSpeaking (run es (step StopSpeaking ?s))"
    using run_not_speaking[OF _ ns] by blast
  ultimately show ?thesis by blast
qed

theorem stopSpeaking_final_witness:
  "Speaking
     (run [StartListening, RecOnStart, RecOnResult ''hi'', RecOnEnd,
           FetchSettled (HttpResponse 200 (Some (Some ''hello''))), UttOnStart]
        (mount True True)) \<and>
   Idle
     (step StopSpeaking
        (run [StartListening, RecOnStart, RecOnResult ''hi'', RecOnEnd,
              FetchSettled (HttpResponse 200 (Some (Some ''hello''))), UttOnStart]
           (mount True True))) \<and>
   run [UttOnError, UttOnEnd]
     (step StopSpeaking
        (run [StartListening, RecOnStart, RecOnResult ''hi'', RecOnEnd,
              FetchSettled (HttpResponse 200 (Some (Some ''hello''))), UttOnStart]
           (mount True True))) =
   step StopSpeaking
     (run [StartListening, RecOnStart, RecOnResult ''hi'', RecOnEnd,
           FetchSettled (HttpResponse 200 (Some (Some ''hello''))), UttOnStart]
        (mount True True)) \<and>
   \<not> isSpeaking
     (run [UttOnError, UttOnEnd]
        (step StopSpeaking
           (run [StartListening, RecOnStart, RecOnResult ''hi'', RecOnEnd,
                 FetchSettled (HttpResponse 200 (Some (Some ''hello''))), UttOnStart]
              (mount True True))))"
proof -
  have sp: "Speaking
     (run [StartListening, RecOnStart, RecOnResult ''hi'', RecOnEnd,
           FetchSettled (HttpResponse 200 (Some (Some ''hello''))), UttOnStart]
        (mount True True))"
    by (simp only: Speaking_after_exchange) (simp add: Speaking_def)
  have "UttOnStart \<notin> set [UttOnError, UttOnEnd]"
    and "set [UttOnError, UttOnEnd] \<subseteq> {UttOnEnd, UttOnError}"
    by simp_all
  with stopSpeaking_final[OF sp, of "[UttOnError, UttOnEnd]"] sp
  show ?thesis by blast
qed


end
